theory Spec2Isabelle
  imports Main "HOL-Library.Word"
begin

section \<open>JavaScript values\<close>

text \<open>
  A JavaScript string is a sequence of UTF-16 code units; \<open>length\<close>, \<open>trim\<close> and
  \<open>replace\<close> all work on code units. \<open>js\<close> turns an ASCII literal into such a string.
\<close>

type_synonym jschar = "16 word"
type_synonym jsstring = "jschar list"

definition js :: "string \<Rightarrow> jsstring" where
  "js s = map of_char s"

text \<open>
  The values a handler can find in a field of a decoded payload. \<open>JNum\<close> stands for the
  integer-valued numbers whose \<open>toString()\<close> is the plain decimal numeral; \<open>JObj t\<close> is an
  object or array, with \<open>t\<close> the outcome of calling \<open>toString()\<close> on it (\<open>None\<close> when the call
  throws).
\<close>

datatype jsval =
    JUndefined
  | JNull
  | JBool bool
  | JNum int
  | JStr jsstring
  | JObj "jsstring option"

text \<open>\<open>truthy v\<close> is what \<open>!v\<close> negates.\<close>

fun truthy :: "jsval \<Rightarrow> bool" where
  "truthy JUndefined = False"
| "truthy JNull = False"
| "truthy (JBool b) = b"
| "truthy (JNum n) = (n \<noteq> 0)"
| "truthy (JStr s) = (s \<noteq> [])"
| "truthy (JObj t) = True"

text \<open>
  \<open>String.prototype.trim\<close> strips WhiteSpace and LineTerminator code units from both ends:
  TAB, LF, VT, FF, CR, SPACE, NBSP, U+1680, U+2000..U+200A, U+2028, U+2029, U+202F, U+205F,
  U+3000 and U+FEFF.
\<close>

definition isWhiteSpace :: "jschar \<Rightarrow> bool" where
  "isWhiteSpace c \<longleftrightarrow>
     c \<in> {0x09, 0x0A, 0x0B, 0x0C, 0x0D, 0x20, 0xA0, 0x1680, 0x2028, 0x2029, 0x202F, 0x205F,
          0x3000, 0xFEFF}
     \<or> (0x2000 \<le> c \<and> c \<le> 0x200A)"

definition trim :: "jsstring \<Rightarrow> jsstring" where
  "trim s = rev (dropWhile isWhiteSpace (rev (dropWhile isWhiteSpace s)))"

section \<open>ValidationMiddleware\<close>

subsection \<open>sanitizeHtml\<close>

text \<open>
  \<open>replaceAll c r s\<close> is \<open>s.replace(/c/g, r)\<close> for a pattern of one literal character and a
  replacement text without \<open>$\<close>.
\<close>

fun replaceAll :: "jschar \<Rightarrow> jsstring \<Rightarrow> jsstring \<Rightarrow> jsstring" where
  "replaceAll c r [] = []"
| "replaceAll c r (x # xs) = (if x = c then r @ replaceAll c r xs else x # replaceAll c r xs)"

text \<open>
  \<^verbatim>\<open>
  static sanitizeHtml(input) {
    if (typeof input !== "string") return input;
    return input.replace(/&/g, "&amp;").replace(/</g, "&lt;").replace(/>/g, "&gt;")
      .replace(/"/g, "&quot;").replace(/'/g, "&#x27;").replace(/\//g, "&#x2F;");
  }
  \<close>
  Six passes over the whole string, one after the other (\<open>replace_chain\<close>), behind the
  \<open>typeof\<close> guard.
\<close>

definition replace_chain :: "jsstring \<Rightarrow> jsstring" where
  "replace_chain input =
     replaceAll (of_char CHR ''/'') (js ''&#x2F;'')
    (replaceAll (of_char CHR 0x27) (js ''&#x27;'')
    (replaceAll (of_char CHR 0x22) (js ''&quot;'')
    (replaceAll (of_char CHR ''>'') (js ''&gt;'')
    (replaceAll (of_char CHR ''<'') (js ''&lt;'')
    (replaceAll (of_char CHR ''&'') (js ''&amp;'') input)))))"

definition sanitizeHtml :: "jsval \<Rightarrow> jsval" where
  "sanitizeHtml input = (case input of JStr s \<Rightarrow> JStr (replace_chain s) | _ \<Rightarrow> input)"

text \<open>
  The specification's wording of the same function: one scan, each character replaced by its
  entity, the output never scanned again.
\<close>

definition spec_entity :: "jschar \<Rightarrow> jsstring" where
  "spec_entity c =
     (if c = of_char CHR ''&'' then js ''&amp;''
      else if c = of_char CHR ''<'' then js ''&lt;''
      else if c = of_char CHR ''>'' then js ''&gt;''
      else if c = of_char CHR 0x22 then js ''&quot;''
      else if c = of_char CHR 0x27 then js ''&#x27;''
      else if c = of_char CHR ''/'' then js ''&#x2F;''
      else [c])"

definition spec_sanitize :: "jsstring \<Rightarrow> jsstring" where
  "spec_sanitize s = concat (map spec_entity s)"

subsection \<open>Validators\<close>

text \<open>The result objects \<open>{isValid: false, error}\<close> and \<open>{isValid: true, ...}\<close>.\<close>

datatype 'a validation = Invalid string | Valid 'a

text \<open>
  \<^verbatim>\<open>
  static validateRoomId(roomId) {
    if (!roomId) return { isValid: false, error: "roomId is required" };
    if (typeof roomId !== "string") return { isValid: false, error: "roomId must be a string" };
    if (roomId.trim().length === 0) return { isValid: false, error: "roomId cannot be empty" };
    if (roomId.length > 100) return { isValid: false, error: "roomId too long (max 100 characters)" };
    return { isValid: true };
  }
  \<close>
\<close>

definition validateRoomId :: "jsval \<Rightarrow> unit validation" where
  "validateRoomId roomId =
     (if \<not> truthy roomId then Invalid ''roomId is required''
      else case roomId of
        JStr s \<Rightarrow>
          if length (trim s) = 0 then Invalid ''roomId cannot be empty''
          else if length s > 100 then Invalid ''roomId too long (max 100 characters)''
          else Valid ()
      | _ \<Rightarrow> Invalid ''roomId must be a string'')"

text \<open>
  \<open>validateMessage\<close>: the same chain of checks, the length bound (1000) on the trimmed
  text, and on success the sanitized trimmed text.
\<close>

definition validateMessage :: "jsval \<Rightarrow> jsval validation" where
  "validateMessage message =
     (if \<not> truthy message then Invalid ''message is required''
      else case message of
        JStr s \<Rightarrow>
          (let trimmedMessage = trim s in
           if length trimmedMessage = 0 then Invalid ''message cannot be empty''
           else if length trimmedMessage > 1000
             then Invalid ''message too long (max 1000 characters)''
           else Valid (sanitizeHtml (JStr trimmedMessage)))
      | _ \<Rightarrow> Invalid ''message must be a string'')"

subsection \<open>checkRateLimit\<close>

text \<open>
  The static \<open>rateLimitStore\<close> is a \<open>Map\<close> from identifier to \<open>{requests, resetTime}\<close>,
  created empty on first use. \<open>now\<close> is the reading of \<open>Date.now()\<close>. The call returns
  whether the request is allowed, and the store as the call leaves it.
  \<^verbatim>\<open>
  static checkRateLimit(identifier, maxRequests = 100, windowMs = 60000) {
    if (!this.rateLimitStore) this.rateLimitStore = new Map();
    const now = Date.now();
    const clientData = this.rateLimitStore.get(identifier);
    if (!clientData) {
      this.rateLimitStore.set(identifier, { requests: 1, resetTime: now + windowMs });
      return true;
    }
    if (now > clientData.resetTime) {
      this.rateLimitStore.set(identifier, { requests: 1, resetTime: now + windowMs });
      return true;
    }
    if (clientData.requests >= maxRequests) return false;
    clientData.requests++;
    return true;
  }
  \<close>
\<close>

record rate_entry =
  requests :: int
  resetTime :: int

type_synonym rate_store = "jsstring \<rightharpoonup> rate_entry"

definition checkRateLimit ::
  "int \<Rightarrow> jsstring \<Rightarrow> int \<Rightarrow> int \<Rightarrow> rate_store \<Rightarrow> bool \<times> rate_store" where
  "checkRateLimit now identifier maxRequests windowMs store =
     (case store identifier of
        None \<Rightarrow>
          (True, store(identifier \<mapsto> \<lparr>requests = 1, resetTime = now + windowMs\<rparr>))
      | Some clientData \<Rightarrow>
          if now > resetTime clientData then
            (True, store(identifier \<mapsto> \<lparr>requests = 1, resetTime = now + windowMs\<rparr>))
          else if requests clientData \<ge> maxRequests then (False, store)
          else (True, store(identifier \<mapsto> clientData\<lparr>requests := requests clientData + 1\<rparr>)))"

subsection \<open>validatePagination\<close>

text \<open>
  \<open>parseInt(v)\<close> with no radix: \<open>v\<close> is converted to a string, leading white space is
  skipped, then an optional sign, then an optional \<open>0x\<close>/\<open>0X\<close> (which selects radix 16), then
  the longest run of digits of the radix; what follows is ignored. No digit at all gives
  \<open>NaN\<close>, here \<open>None\<close>. Exceptions are values: \<open>TypeError\<close> for a call on something that
  is not a function, \<open>QueryError\<close> for a query the database rejects. The value is kept as the exact integer (the double that JavaScript
  rounds a very long numeral to compares in the same way with 0, 1 and 100).
\<close>

datatype exn = TypeError | QueryError

fun digits :: "nat \<Rightarrow> jsstring" where
  "digits n = (if n < 10 then [of_nat (48 + n)] else digits (n div 10) @ [of_nat (48 + n mod 10)])"

definition number_toString :: "int \<Rightarrow> jsstring" where
  "number_toString n = (if n < 0 then of_char CHR ''-'' # digits (nat (- n)) else digits (nat n))"

text \<open>\<open>v.toString()\<close>, which throws on \<open>undefined\<close> and \<open>null\<close>.\<close>

fun toString :: "jsval \<Rightarrow> exn + jsstring" where
  "toString JUndefined = Inl TypeError"
| "toString JNull = Inl TypeError"
| "toString (JBool b) = Inr (js (if b then ''true'' else ''false''))"
| "toString (JNum n) = Inr (number_toString n)"
| "toString (JStr s) = Inr s"
| "toString (JObj t) = (case t of None \<Rightarrow> Inl TypeError | Some s \<Rightarrow> Inr s)"

text \<open>The abstract operation \<open>ToString\<close>, which \<open>parseInt\<close> applies to its argument.\<close>

fun ToString :: "jsval \<Rightarrow> exn + jsstring" where
  "ToString JUndefined = Inr (js ''undefined'')"
| "ToString JNull = Inr (js ''null'')"
| "ToString v = toString v"

definition digit_value :: "nat \<Rightarrow> jschar \<Rightarrow> nat option" where
  "digit_value radix c =
     (let u = unat c;
          d = (if 48 \<le> u \<and> u \<le> 57 then Some (u - 48)
               else if 97 \<le> u \<and> u \<le> 122 then Some (u - 97 + 10)
               else if 65 \<le> u \<and> u \<le> 90 then Some (u - 65 + 10)
               else None)
      in case d of None \<Rightarrow> None | Some k \<Rightarrow> if k < radix then Some k else None)"

fun parse_digits :: "nat \<Rightarrow> nat option \<Rightarrow> jsstring \<Rightarrow> nat option" where
  "parse_digits radix acc [] = acc"
| "parse_digits radix acc (c # cs) =
     (case digit_value radix c of
        None \<Rightarrow> acc
      | Some k \<Rightarrow> parse_digits radix (Some ((case acc of None \<Rightarrow> 0 | Some a \<Rightarrow> a) * radix + k)) cs)"

definition parseInt_string :: "jsstring \<Rightarrow> int option" where
  "parseInt_string inputString =
     (let S = dropWhile isWhiteSpace inputString;
          sign = (if S \<noteq> [] \<and> hd S = of_char CHR ''-'' then - 1 else 1 :: int);
          S1 = (if S \<noteq> [] \<and> (hd S = of_char CHR ''+'' \<or> hd S = of_char CHR ''-'') then tl S else S);
          hex = (take 2 S1 = js ''0x'' \<or> take 2 S1 = js ''0X'');
          S2 = (if hex then drop 2 S1 else S1);
          R = (if hex then 16 else 10)
      in case parse_digits R None S2 of
           None \<Rightarrow> None
         | Some mathInt \<Rightarrow> Some (sign * int mathInt))"

definition parseInt :: "jsval \<Rightarrow> exn + int option" where
  "parseInt v = (case ToString v of Inl e \<Rightarrow> Inl e | Inr s \<Rightarrow> Inr (parseInt_string s))"

text \<open>
  \<^verbatim>\<open>
  static validatePagination(limit, offset) {
    let sanitizedLimit = 50; let sanitizedOffset = 0;
    if (limit !== undefined) {
      const parsedLimit = parseInt(limit);
      if (isNaN(parsedLimit) || parsedLimit < 1)
        return { isValid: false, error: "limit must be a positive integer" };
      if (parsedLimit > 100) return { isValid: false, error: "limit cannot exceed 100" };
      sanitizedLimit = parsedLimit;
    }
    if (offset !== undefined) {
      const parsedOffset = parseInt(offset);
      if (isNaN(parsedOffset) || parsedOffset < 0)
        return { isValid: false, error: "offset must be a non-negative integer" };
      sanitizedOffset = parsedOffset;
    }
    return { isValid: true, sanitizedLimit, sanitizedOffset };
  }
  \<close>
  The two \<open>if\<close> blocks are \<open>validate_limit\<close> and \<open>validate_offset\<close>. \<open>Inl\<close> is an
  exception that leaves the function (a \<open>toString\<close> that throws inside \<open>parseInt\<close>).
\<close>

definition validate_limit :: "jsval \<Rightarrow> exn + int validation" where
  "validate_limit limit =
     (if limit \<noteq> JUndefined then
        (case parseInt limit of
           Inl e \<Rightarrow> Inl e
         | Inr None \<Rightarrow> Inr (Invalid ''limit must be a positive integer'')
         | Inr (Some parsedLimit) \<Rightarrow>
             if parsedLimit < 1 then Inr (Invalid ''limit must be a positive integer'')
             else if parsedLimit > 100 then Inr (Invalid ''limit cannot exceed 100'')
             else Inr (Valid parsedLimit))
      else Inr (Valid 50))"

definition validate_offset :: "jsval \<Rightarrow> exn + int validation" where
  "validate_offset offset =
     (if offset \<noteq> JUndefined then
        (case parseInt offset of
           Inl e \<Rightarrow> Inl e
         | Inr None \<Rightarrow> Inr (Invalid ''offset must be a non-negative integer'')
         | Inr (Some parsedOffset) \<Rightarrow>
             if parsedOffset < 0 then Inr (Invalid ''offset must be a non-negative integer'')
             else Inr (Valid parsedOffset))
      else Inr (Valid 0))"

definition validatePagination :: "jsval \<Rightarrow> jsval \<Rightarrow> exn + (int \<times> int) validation" where
  "validatePagination limit offset =
     (case validate_limit limit of
        Inl e \<Rightarrow> Inl e
      | Inr (Invalid err) \<Rightarrow> Inr (Invalid err)
      | Inr (Valid sanitizedLimit) \<Rightarrow>
          (case validate_offset offset of
             Inl e \<Rightarrow> Inl e
           | Inr (Invalid err) \<Rightarrow> Inr (Invalid err)
           | Inr (Valid sanitizedOffset) \<Rightarrow> Inr (Valid (sanitizedLimit, sanitizedOffset))))"

section \<open>The process and its collaborators\<close>

subsection \<open>The message store\<close>

text \<open>
  \<open>chatModel\<close> hands two SQL statements to the PostgreSQL pool. The database is not part of
  the repository: the model records every statement with its parameters, in order, and
  takes the database's answer (\<open>pg\<close>) from the environment: the rows of the result, or a
  rejected query.
  \<^verbatim>\<open>
  INSERT INTO chat_message (room_id, sender_id, content, created_at)
    VALUES ($1, $2, $3, CURRENT_TIMESTAMP) RETURNING *
  SELECT id, room_id, sender_id, content, created_at FROM chat_message
    WHERE room_id = $1 ORDER BY created_at ASC LIMIT $2 OFFSET $3
  \<close>
\<close>

record row =
  row_id :: int
  room_id :: jsstring
  sender_id :: jsstring
  row_content :: jsstring
  created_at :: int

datatype statement =
    Insert jsval jsval jsstring
  | Select jsval jsval jsval

datatype pg_answer = Rejected | Rows "row list"

subsection \<open>The transport\<close>

text \<open>
  What a handler asks Socket.IO to send: \<open>socket.emit\<close> (to the caller only),
  \<open>socket.to(room).emit\<close> (to the room, the caller left out) and \<open>io.to(room).emit\<close> (to
  the whole room), with the event name and the payload object.
\<close>

datatype target =
    ToSocket jsstring
  | ToRoomExcept jsstring jsstring
  | ToRoom jsstring

datatype payload =
    ErrorMsg string
  | UserJoined jsval jsstring int
  | Joined jsval jsval
  | Receive "row option" jsstring
  | History "row list" nat jsval jsval jsval
  | UserDisconnected jsstring jsstring

record emission =
  target :: target
  event :: string
  payload :: payload

text \<open>
  The state a handler runs in: the adapter's membership as pairs (socket id, room), the
  emissions so far, the statements handed to the pool so far, the static rate-limit store,
  and the environment (the database's answers and the clock). A handler is taken as one
  atomic step.
\<close>

record world =
  joined :: "(jsstring \<times> jsstring) list"
  emitted :: "emission list"
  statements :: "statement list"
  rateLimitStore :: rate_store
  pg :: "statement \<Rightarrow> pg_answer"
  clock :: int

definition emit :: "target \<Rightarrow> string \<Rightarrow> payload \<Rightarrow> world \<Rightarrow> world" where
  "emit t e p w = w\<lparr>emitted := emitted w @ [\<lparr>target = t, event = e, payload = p\<rparr>]\<rparr>"

text \<open>\<open>socket.rooms\<close>, the members of a room, and who an emission is delivered to.\<close>

definition socket_rooms :: "jsstring \<Rightarrow> world \<Rightarrow> jsstring list" where
  "socket_rooms socket w = map snd (filter (\<lambda>m. fst m = socket) (joined w))"

definition members :: "world \<Rightarrow> jsstring \<Rightarrow> jsstring list" where
  "members w room = map fst (filter (\<lambda>m. snd m = room) (joined w))"

fun recipients :: "world \<Rightarrow> target \<Rightarrow> jsstring list" where
  "recipients w (ToSocket s) = [s]"
| "recipients w (ToRoomExcept room s) = filter (\<lambda>m. m \<noteq> s) (members w room)"
| "recipients w (ToRoom room) = members w room"

definition socket_join :: "jsstring \<Rightarrow> jsstring \<Rightarrow> world \<Rightarrow> world" where
  "socket_join socket room w =
     (if (socket, room) \<in> set (joined w) then w
      else w\<lparr>joined := joined w @ [(socket, room)]\<rparr>)"

section \<open>chatModel\<close>

text \<open>
  \<open>pool.query\<close>: the statement is logged, and it resolves with the rows of the answer or
  rejects.
\<close>

definition pool_query :: "statement \<Rightarrow> world \<Rightarrow> (exn + row list) \<times> world" where
  "pool_query q w =
     ((case pg w q of Rejected \<Rightarrow> Inl QueryError | Rows rs \<Rightarrow> Inr rs),
      w\<lparr>statements := statements w @ [q]\<rparr>)"

text \<open>
  \<^verbatim>\<open>
  const saveMessage = async (roomId, senderId, content) => {
    const result = await pool.query(`INSERT ...`, [roomId, senderId, content]);
    return result.rows[0];
  };
  \<close>
  \<open>rows[0]\<close> of an empty result is \<open>undefined\<close>, here \<open>None\<close>.
\<close>

definition saveMessage ::
  "jsval \<Rightarrow> jsval \<Rightarrow> jsstring \<Rightarrow> world \<Rightarrow> (exn + row option) \<times> world" where
  "saveMessage roomId senderId content w =
     (case pool_query (Insert roomId senderId content) w of
        (Inl e, w') \<Rightarrow> (Inl e, w')
      | (Inr rs, w') \<Rightarrow> (Inr (case rs of [] \<Rightarrow> None | r # _ \<Rightarrow> Some r), w'))"

text \<open>A default parameter value, or a destructuring default: it replaces \<open>undefined\<close> only.\<close>

definition dflt :: "jsval \<Rightarrow> jsval \<Rightarrow> jsval" where
  "dflt v d = (if v = JUndefined then d else v)"

text \<open>
  \<^verbatim>\<open>
  const getMessagesByRoom = async (roomId, limit = 50, offset = 0) => {
    const result = await pool.query(`SELECT ...`, [roomId, limit, offset]);
    return result.rows;
  };
  \<close>
\<close>

definition getMessagesByRoom ::
  "jsval \<Rightarrow> jsval \<Rightarrow> jsval \<Rightarrow> world \<Rightarrow> (exn + row list) \<times> world" where
  "getMessagesByRoom roomId limit offset w =
     pool_query (Select roomId (dflt limit (JNum 50)) (dflt offset (JNum 0))) w"

section \<open>ChatService\<close>

text \<open>The result objects \<open>{success: false, error}\<close> and \<open>{success: true, data, ...}\<close>.\<close>

datatype 'a service_result = Failure string | Success 'a

text \<open>
  \<^verbatim>\<open>
  static async sendMessage(roomId, senderId, content) {
    try {
      if (!roomId || !senderId || !content)
        return { success: false, error: "roomId, senderId, and content are required" };
      const trimmedContent = content.trim();
      if (trimmedContent.length === 0)
        return { success: false, error: "Message content cannot be empty" };
      if (trimmedContent.length > 1000)
        return { success: false, error: "Message content too long (max 1000 characters)" };
      const message = await chatModel.saveMessage(roomId, senderId, trimmedContent);
      return { success: true, data: message, message: "Message sent successfully" };
    } catch (error) {
      return { success: false, error: "Failed to send message" };
    }
  }
  \<close>
  A truthy \<open>content\<close> that is not a string has no \<open>trim\<close> method: the call throws, and the
  \<open>catch\<close> answers.
\<close>

definition sendMessage ::
  "jsval \<Rightarrow> jsval \<Rightarrow> jsval \<Rightarrow> world \<Rightarrow> row option service_result \<times> world" where
  "sendMessage roomId senderId content w =
     (if \<not> truthy roomId \<or> \<not> truthy senderId \<or> \<not> truthy content
        then (Failure ''roomId, senderId, and content are required'', w)
      else case content of
        JStr s \<Rightarrow>
          (let trimmedContent = trim s in
           if length trimmedContent = 0 then (Failure ''Message content cannot be empty'', w)
           else if length trimmedContent > 1000
             then (Failure ''Message content too long (max 1000 characters)'', w)
           else case saveMessage roomId senderId trimmedContent w of
                  (Inl e, w') \<Rightarrow> (Failure ''Failed to send message'', w')
                | (Inr message, w') \<Rightarrow> (Success message, w'))
      | _ \<Rightarrow> (Failure ''Failed to send message'', w))"

text \<open>
  \<^verbatim>\<open>
  static async getChatHistory(roomId, limit = 50, offset = 0) {
    try {
      if (!roomId) return { success: false, error: "roomId is required" };
      const messages = await chatModel.getMessagesByRoom(roomId, limit, offset);
      return { success: true, data: messages, count: messages.length };
    } catch (error) {
      return { success: false, error: "Failed to retrieve chat history" };
    }
  }
  \<close>
\<close>

definition getChatHistory ::
  "jsval \<Rightarrow> jsval \<Rightarrow> jsval \<Rightarrow> world \<Rightarrow> (row list \<times> nat) service_result \<times> world" where
  "getChatHistory roomId limit offset w =
     (if \<not> truthy roomId then (Failure ''roomId is required'', w)
      else case getMessagesByRoom roomId (dflt limit (JNum 50)) (dflt offset (JNum 0)) w of
             (Inl e, w') \<Rightarrow> (Failure ''Failed to retrieve chat history'', w')
           | (Inr messages, w') \<Rightarrow> (Success (messages, length messages), w'))"

section \<open>SocketHandler\<close>

text \<open>
  \<^verbatim>\<open>
  static handleDisconnection(socket, reason) {
    const rooms = Array.from(socket.rooms);
    rooms.forEach((roomId) => {
      if (roomId !== socket.id) {
        socket.to(roomId).emit("userDisconnected", { socketId: socket.id, reason });
      }
    });
  }
  \<close>
  \<open>socket\<close> is the socket's id; its rooms are read from the membership of the state the
  handler runs in.
\<close>

definition handleDisconnection :: "jsstring \<Rightarrow> jsstring \<Rightarrow> world \<Rightarrow> world" where
  "handleDisconnection socket reason w =
     foldl (\<lambda>w' roomId.
              if roomId \<noteq> socket
                then emit (ToRoomExcept roomId socket) ''userDisconnected''
                       (UserDisconnected socket reason) w'
              else w')
       w (socket_rooms socket w)"

text \<open>
  The only caller of \<open>handleDisconnection\<close> is the listener that \<open>initialize\<close> registers:
  \<^verbatim>\<open>
  socket.on("disconnect", (reason) => {
    this.handleDisconnection(socket, reason);
  });
  \<close>
  Socket.IO, the transport library, raises \<open>disconnect\<close> for a socket only after it has
  taken the socket out of all its rooms (\<open>leaveAll\<close>); the rooms are still there at the
  earlier \<open>disconnecting\<close> event, which the code does not listen to. \<open>on_disconnect\<close> is the
  listener run in the state the library leaves.
\<close>

definition leaveAll :: "jsstring \<Rightarrow> world \<Rightarrow> world" where
  "leaveAll socket w = w\<lparr>joined := filter (\<lambda>m. fst m \<noteq> socket) (joined w)\<rparr>"

definition on_disconnect :: "jsstring \<Rightarrow> jsstring \<Rightarrow> world \<Rightarrow> world" where
  "on_disconnect socket reason w = handleDisconnection socket reason (leaveAll socket w)"

section \<open>ChatEvents\<close>

text \<open>
  The payload of a client event, as the handlers destructure it. A handler receives
  \<open>None\<close> when the client sent no payload (\<open>undefined\<close> or \<open>null\<close>); a field the payload
  lacks is \<open>JUndefined\<close>.
\<close>

record request =
  roomId :: jsval
  userId :: jsval
  message :: jsval
  limit :: jsval
  offset :: jsval

definition reply_error :: "jsstring \<Rightarrow> string \<Rightarrow> world \<Rightarrow> world" where
  "reply_error socket msg w = emit (ToSocket socket) ''chat:error'' (ErrorMsg msg) w"

text \<open>
  \<^verbatim>\<open>
  socket.on("chat:join", (data) => {
    try {
      const { roomId, userId } = data;
      if (!roomId || !userId) {
        socket.emit("chat:error", { message: "roomId and userId are required" });
        return;
      }
      socket.join(roomId.toString());
      socket.to(roomId.toString()).emit("chat:userJoined",
        { userId, socketId: socket.id, timestamp: new Date().toISOString() });
      socket.emit("chat:joined", { roomId, userId });
    } catch (error) {
      socket.emit("chat:error", { message: "Failed to join chat room" });
    }
  });
  \<close>
  Destructuring a missing payload throws; so does a \<open>toString\<close> that is not callable.
\<close>

definition chat_join :: "jsstring \<Rightarrow> request option \<Rightarrow> world \<Rightarrow> world" where
  "chat_join socket data w =
     (case data of
        None \<Rightarrow> reply_error socket ''Failed to join chat room'' w
      | Some d \<Rightarrow>
          if \<not> truthy (roomId d) \<or> \<not> truthy (userId d)
            then reply_error socket ''roomId and userId are required'' w
          else case toString (roomId d) of
                 Inl e \<Rightarrow> reply_error socket ''Failed to join chat room'' w
               | Inr room \<Rightarrow>
                   emit (ToSocket socket) ''chat:joined'' (Joined (roomId d) (userId d))
                     (emit (ToRoomExcept room socket) ''chat:userJoined''
                        (UserJoined (userId d) socket (clock w))
                        (socket_join socket room w)))"

text \<open>
  \<^verbatim>\<open>
  socket.on("chat:send", async (data) => {
    try {
      const { roomId, userId, message } = data;
      if (!roomId || !userId || !message) {
        socket.emit("chat:error", { message: "roomId, userId, and message are required" });
        return;
      }
      const result = await ChatService.sendMessage(roomId, userId, message);
      if (result.success) {
        const messageData = { ...result.data, socketId: socket.id };
        io.to(roomId.toString()).emit("chat:receive", messageData);
      } else {
        socket.emit("chat:error", { message: result.error });
      }
    } catch (error) {
      socket.emit("chat:error", { message: "Failed to send message" });
    }
  });
  \<close>
\<close>

definition chat_send :: "jsstring \<Rightarrow> request option \<Rightarrow> world \<Rightarrow> world" where
  "chat_send socket data w =
     (case data of
        None \<Rightarrow> reply_error socket ''Failed to send message'' w
      | Some d \<Rightarrow>
          if \<not> truthy (roomId d) \<or> \<not> truthy (userId d) \<or> \<not> truthy (message d)
            then reply_error socket ''roomId, userId, and message are required'' w
          else case sendMessage (roomId d) (userId d) (message d) w of
                 (Success messageData, w') \<Rightarrow>
                   (case toString (roomId d) of
                      Inl e \<Rightarrow> reply_error socket ''Failed to send message'' w'
                    | Inr room \<Rightarrow>
                        emit (ToRoom room) ''chat:receive'' (Receive messageData socket) w')
               | (Failure err, w') \<Rightarrow> reply_error socket err w')"

text \<open>
  \<^verbatim>\<open>
  socket.on("chat:getHistory", async (data) => {
    try {
      const { roomId, limit = 50, offset = 0 } = data || {};
      if (!roomId) {
        socket.emit("chat:error", { message: "roomId is required" });
        return;
      }
      const result = await ChatService.getChatHistory(roomId, limit, offset);
      if (result.success) {
        socket.emit("chat:history",
          { messages: result.data, count: result.count, roomId, limit, offset });
      } else {
        socket.emit("chat:error", { message: result.error });
      }
    } catch (error) {
      socket.emit("chat:error", { message: "Failed to get chat history" });
    }
  });
  \<close>
\<close>

definition no_fields :: request where
  "no_fields =
     \<lparr>roomId = JUndefined, userId = JUndefined, message = JUndefined, limit = JUndefined,
      offset = JUndefined\<rparr>"

definition chat_getHistory :: "jsstring \<Rightarrow> request option \<Rightarrow> world \<Rightarrow> world" where
  "chat_getHistory socket data w =
     (let d = (case data of None \<Rightarrow> no_fields | Some d \<Rightarrow> d);
          lim = dflt (limit d) (JNum 50);
          off = dflt (offset d) (JNum 0)
      in if \<not> truthy (roomId d) then reply_error socket ''roomId is required'' w
         else case getChatHistory (roomId d) lim off w of
                (Success (messages, count), w') \<Rightarrow>
                  emit (ToSocket socket) ''chat:history''
                    (History messages count (roomId d) lim off) w'
              | (Failure err, w') \<Rightarrow> reply_error socket err w')"

section \<open>ChatController\<close>

text \<open>
  \<^verbatim>\<open>
  static async postMessage(req, res) {
    try {
      const { roomId, senderId, content } = req.body;
      const result = await ChatService.sendMessage(roomId, senderId, content);
      if (result.success) {
        res.writeHead(201, ...);
        res.end(JSON.stringify({ success: true, data: result.data, message: result.message }));
      } else {
        res.writeHead(400, ...);
        res.end(JSON.stringify({ success: false, error: result.error }));
      }
    } catch (error) {
      res.writeHead(500, ...);
      res.end(JSON.stringify({ success: false, error: "Failed to save message" }));
    }
  }
  \<close>
  The response is the status code with the body object.
\<close>

record post_body =
  body_roomId :: jsval
  body_senderId :: jsval
  body_content :: jsval

datatype response_body = Saved "row option" string | NotSaved string

definition postMessage ::
  "post_body option \<Rightarrow> world \<Rightarrow> (nat \<times> response_body) \<times> world" where
  "postMessage body w =
     (case body of
        None \<Rightarrow> ((500, NotSaved ''Failed to save message''), w)
      | Some b \<Rightarrow>
          (case sendMessage (body_roomId b) (body_senderId b) (body_content b) w of
             (Success messageData, w') \<Rightarrow>
               ((201, Saved messageData ''Message sent successfully''), w')
           | (Failure err, w') \<Rightarrow> ((400, NotSaved err), w')))"

section \<open>Sample runs\<close>

text \<open>
  Successive calls of \<open>checkRateLimit\<close> for one identifier, each at its own clock reading,
  the store threaded from call to call; the list of answers.
\<close>

fun successive_calls :: "jsstring \<Rightarrow> int \<Rightarrow> int \<Rightarrow> int list \<Rightarrow> rate_store \<Rightarrow> bool list" where
  "successive_calls identifier maxRequests windowMs [] store = []"
| "successive_calls identifier maxRequests windowMs (now # later) store =
     (case checkRateLimit now identifier maxRequests windowMs store of
        (allowed, store') \<Rightarrow> allowed # successive_calls identifier maxRequests windowMs later store')"

text \<open>
  A state with two connections, \<open>A\<close> and \<open>B\<close>, each in its own room and both in room
  \<open>r1\<close>, over a database that accepts every statement: an insert returns the stored row,
  a select finds no rows.
\<close>

fun accepting_pg :: "statement \<Rightarrow> pg_answer" where
  "accepting_pg (Insert r u c) =
     Rows [\<lparr>row_id = 1, room_id = js ''r1'', sender_id = js ''alice'', row_content = c,
            created_at = 1000\<rparr>]"
| "accepting_pg (Select r l k) = Rows []"

definition sample_world :: world where
  "sample_world =
     \<lparr>joined = [(js ''A'', js ''A''), (js ''A'', js ''r1''), (js ''B'', js ''B''), (js ''B'', js ''r1'')],
      emitted = [],
      statements = [],
      rateLimitStore = Map.empty,
      pg = accepting_pg,
      clock = 1000\<rparr>"

text \<open>A payload for room \<open>r1\<close> from user \<open>alice\<close>, with the given message text.\<close>

definition hello_request :: "jsstring \<Rightarrow> request" where
  "hello_request text =
     \<lparr>roomId = JStr (js ''r1''), userId = JStr (js ''alice''), message = JStr text,
      limit = JUndefined, offset = JUndefined\<rparr>"


section \<open>Properties of the sanitizer\<close>

lemma replaceAll_append:
  "replaceAll c r (xs @ ys) = replaceAll c r xs @ replaceAll c r ys"
  by (induction xs) simp_all

lemma replace_chain_append:
  "replace_chain (xs @ ys) = replace_chain xs @ replace_chain ys"
  by (simp add: replace_chain_def replaceAll_append)

lemma replace_chain_single: "replace_chain [x] = spec_entity x"
  by (simp add: replace_chain_def spec_entity_def js_def)

lemma replace_chain_spec: "replace_chain s = spec_sanitize s"
proof (induction s)
  case Nil
  show ?case by (simp add: replace_chain_def spec_sanitize_def)
next
  case (Cons x xs)
  have "replace_chain (x # xs) = replace_chain [x] @ replace_chain xs"
    using replace_chain_append [of "[x]" xs] by simp
  with Cons show ?case by (simp add: replace_chain_single spec_sanitize_def)
qed

lemma length_spec_entity: "1 \<le> length (spec_entity c)"
  by (simp add: spec_entity_def js_def)

lemma length_spec_sanitize: "length s \<le> length (spec_sanitize s)"
proof (induction s)
  case Nil show ?case by (simp add: spec_sanitize_def)
next
  case (Cons x xs)
  then show ?case using length_spec_entity [of x] by (simp add: spec_sanitize_def)
qed

lemma amp_grows: "of_char CHR ''&'' \<in> set s \<Longrightarrow> length s < length (spec_sanitize s)"
proof (induction s)
  case Nil then show ?case by simp
next
  case (Cons x xs)
  show ?case
  proof (cases "x = of_char CHR ''&''")
    case True
    then show ?thesis using length_spec_sanitize [of xs]
      by (simp add: spec_sanitize_def spec_entity_def js_def)
  next
    case False
    with Cons show ?thesis using length_spec_entity [of x] by (simp add: spec_sanitize_def)
  qed
qed

lemma amp_stays: "of_char CHR ''&'' \<in> set s \<Longrightarrow> of_char CHR ''&'' \<in> set (spec_sanitize s)"
  by (induction s) (auto simp: spec_sanitize_def spec_entity_def js_def)

text \<open>
  C3. For every input string, \<open>sanitizeHtml\<close> (six successive global replacements in the
  source) gives what one scan gives that replaces each of the characters
  \<open>& < > " ' /\<close> by its entity and never looks at its own output again; in particular
  \<open><script>\<close> becomes \<open>&lt;script&gt;\<close>, and a message that \<open>validateMessage\<close> accepts
  comes back as the escaped form of its trimmed text.
\<close>

theorem sanitizeHtml_escapes_once:
  "sanitizeHtml (JStr s) = JStr (spec_sanitize s)
   \<and> sanitizeHtml (JStr (js ''<script>'')) = JStr (js ''&lt;script&gt;'')
   \<and> (validateMessage (JStr m) = Valid t \<longrightarrow> t = JStr (spec_sanitize (trim m)))"
proof (intro conjI impI)
  show "sanitizeHtml (JStr s) = JStr (spec_sanitize s)"
    by (simp add: sanitizeHtml_def replace_chain_spec)
  show "sanitizeHtml (JStr (js ''<script>'')) = JStr (js ''&lt;script&gt;'')"
    by (simp add: sanitizeHtml_def replace_chain_def js_def)
  assume "validateMessage (JStr m) = Valid t"
  then show "t = JStr (spec_sanitize (trim m))"
    by (auto simp: validateMessage_def Let_def sanitizeHtml_def replace_chain_spec
        split: if_splits)
qed

theorem sanitizeHtml_escapes_once_witness:
  "validateMessage (JStr (js '' <b> '')) = Valid (JStr (js ''&lt;b&gt;''))
   \<and> spec_sanitize (trim (js '' <b> '')) = js ''&lt;b&gt;''"
proof -
  have v: "validateMessage (JStr (js '' <b> '')) = Valid (JStr (js ''&lt;b&gt;''))"
    by (simp add: validateMessage_def trim_def isWhiteSpace_def sanitizeHtml_def
        replace_chain_def js_def)
  from sanitizeHtml_escapes_once [of "js ''x''" "js '' <b> ''" "JStr (js ''&lt;b&gt;'')"] v
  show ?thesis by simp
qed

text \<open>
  C8. Sanitization is not idempotent: some string changes when sanitized a second time.
  Sanitizing \<open>&\<close> gives \<open>&amp;\<close> and sanitizing that again gives \<open>&amp;amp;\<close>; every
  string that contains \<open>&\<close>, and every sanitized form that contains \<open>&\<close>, changes when
  sanitized again.
\<close>

theorem sanitizeHtml_not_idempotent:
  "(\<exists>s. sanitizeHtml (sanitizeHtml (JStr s)) \<noteq> sanitizeHtml (JStr s))
   \<and> sanitizeHtml (JStr (js ''&'')) = JStr (js ''&amp;'')
   \<and> sanitizeHtml (sanitizeHtml (JStr (js ''&''))) = JStr (js ''&amp;amp;'')
   \<and> (of_char CHR ''&'' \<in> set s \<longrightarrow>
        sanitizeHtml (sanitizeHtml (JStr s)) \<noteq> sanitizeHtml (JStr s))
   \<and> (sanitizeHtml (JStr s) = JStr t \<and> of_char CHR ''&'' \<in> set t \<longrightarrow>
        sanitizeHtml (JStr t) \<noteq> JStr t)"
proof -
  have grow: "sanitizeHtml (JStr u) \<noteq> JStr u" if "of_char CHR ''&'' \<in> set u" for u
    using amp_grows [OF that] by (auto simp: sanitizeHtml_def replace_chain_spec)
  have one: "sanitizeHtml (JStr (js ''&'')) = JStr (js ''&amp;'')"
    by (simp add: sanitizeHtml_def replace_chain_def js_def)
  have again: "sanitizeHtml (JStr (js ''&amp;'')) = JStr (js ''&amp;amp;'')"
    by (simp add: sanitizeHtml_def replace_chain_def js_def)
  have two: "sanitizeHtml (sanitizeHtml (JStr (js ''&''))) = JStr (js ''&amp;amp;'')"
    by (simp only: one again)
  have ex: "\<exists>s. sanitizeHtml (sanitizeHtml (JStr s)) \<noteq> sanitizeHtml (JStr s)"
  proof
    show "sanitizeHtml (sanitizeHtml (JStr (js ''&''))) \<noteq> sanitizeHtml (JStr (js ''&''))"
      by (simp add: one again) (simp add: js_def)
  qed
  have twice: "sanitizeHtml (sanitizeHtml (JStr s)) \<noteq> sanitizeHtml (JStr s)"
    if "of_char CHR ''&'' \<in> set s"
  proof -
    have "sanitizeHtml (JStr s) = JStr (spec_sanitize s)"
      by (simp add: sanitizeHtml_def replace_chain_spec)
    with grow [OF amp_stays [OF that]] show ?thesis by simp
  qed
  from ex one two twice grow show ?thesis by blast
qed

theorem sanitizeHtml_not_idempotent_witness:
  "of_char CHR ''&'' \<in> set (js ''a&b'')
   \<and> sanitizeHtml (sanitizeHtml (JStr (js ''a&b''))) \<noteq> sanitizeHtml (JStr (js ''a&b''))
   \<and> sanitizeHtml (JStr (js ''<'')) = JStr (js ''&lt;'')
   \<and> of_char CHR ''&'' \<in> set (js ''&lt;'')
   \<and> sanitizeHtml (JStr (js ''&lt;'')) \<noteq> JStr (js ''&lt;'')"
proof -
  have a: "of_char CHR ''&'' \<in> set (js ''a&b'')" by (simp add: js_def)
  have b: "sanitizeHtml (JStr (js ''<'')) = JStr (js ''&lt;'')"
    by (simp add: sanitizeHtml_def replace_chain_def js_def)
  have c: "of_char CHR ''&'' \<in> set (js ''&lt;'')" by (simp add: js_def)
  from sanitizeHtml_not_idempotent [of "js ''a&b''" "js ''&lt;''"]
       sanitizeHtml_not_idempotent [of "js ''<''" "js ''&lt;''"] a b c
  show ?thesis by blast
qed

section \<open>Properties of the rate limiter\<close>

lemma crl_new:
  "store i = None \<Longrightarrow>
     checkRateLimit now i mx win store
       = (True, store(i \<mapsto> \<lparr>requests = 1, resetTime = now + win\<rparr>))"
  by (simp add: checkRateLimit_def)

lemma crl_reset:
  "store i = Some e \<Longrightarrow> now > resetTime e \<Longrightarrow>
     checkRateLimit now i mx win store
       = (True, store(i \<mapsto> \<lparr>requests = 1, resetTime = now + win\<rparr>))"
  by (simp add: checkRateLimit_def)

lemma crl_deny:
  "store i = Some e \<Longrightarrow> now \<le> resetTime e \<Longrightarrow> requests e \<ge> mx \<Longrightarrow>
     checkRateLimit now i mx win store = (False, store)"
  by (simp add: checkRateLimit_def)

lemma crl_count:
  "store i = Some e \<Longrightarrow> now \<le> resetTime e \<Longrightarrow> requests e < mx \<Longrightarrow>
     checkRateLimit now i mx win store = (True, store(i \<mapsto> e\<lparr>requests := requests e + 1\<rparr>))"
  by (simp add: checkRateLimit_def)

lemma crl_four_then_fifth:
  assumes "store i = None" "t2 \<le> t1 + 60000" "t3 \<le> t1 + 60000" "t4 \<le> t1 + 60000"
    "t5 > t1 + 60000"
  shows "successive_calls i 3 60000 [t1, t2, t3, t4, t5] store = [True, True, True, False, True]"
proof -
  let ?e1 = "\<lparr>requests = 1, resetTime = t1 + 60000\<rparr>"
  let ?e2 = "\<lparr>requests = 2, resetTime = t1 + 60000\<rparr>"
  let ?e3 = "\<lparr>requests = 3, resetTime = t1 + 60000\<rparr>"
  let ?s1 = "store(i \<mapsto> ?e1)"
  let ?s2 = "store(i \<mapsto> ?e2)"
  let ?s3 = "store(i \<mapsto> ?e3)"
  have c1: "checkRateLimit t1 i 3 60000 store = (True, ?s1)"
    using assms(1) by (rule crl_new)
  have c2: "checkRateLimit t2 i 3 60000 ?s1 = (True, ?s2)"
    using crl_count [of ?s1 i ?e1 t2 3 60000] assms(2) by simp
  have c3: "checkRateLimit t3 i 3 60000 ?s2 = (True, ?s3)"
    using crl_count [of ?s2 i ?e2 t3 3 60000] assms(3) by simp
  have c4: "checkRateLimit t4 i 3 60000 ?s3 = (False, ?s3)"
    using crl_deny [of ?s3 i ?e3 t4 3 60000] assms(4) by simp
  have c5: "fst (checkRateLimit t5 i 3 60000 ?s3) = True"
    using crl_reset [of ?s3 i ?e3 t5 3 60000] assms(5) by simp
  obtain s5 where c5': "checkRateLimit t5 i 3 60000 ?s3 = (True, s5)"
    using c5 by (cases "checkRateLimit t5 i 3 60000 ?s3") simp
  show ?thesis
    by (simp only: successive_calls.simps c1 c2 c3 c4 c5' prod.case)
qed

text \<open>
  C7. \<open>checkRateLimit\<close> is a fixed-window counter: with no entry for the identifier it
  stores a count of 1 with reset time \<open>now + windowMs\<close> and allows; when \<open>now\<close> is past the
  reset time it stores the same fresh entry and allows; otherwise, when the count has
  reached \<open>maxRequests\<close> it denies and leaves the store as it is; otherwise it adds one to
  the count and allows. So of four calls for a new identifier with limit 3 and window
  60000, all within the window of the first, the first three are allowed and the fourth is
  denied, and a fifth call once the clock has passed the window is allowed.
\<close>

theorem checkRateLimit_fixed_window:
  "(store i = None \<longrightarrow>
      checkRateLimit now i mx win store
        = (True, store(i \<mapsto> \<lparr>requests = 1, resetTime = now + win\<rparr>)))
   \<and> (store i = Some e \<and> now > resetTime e \<longrightarrow>
      checkRateLimit now i mx win store
        = (True, store(i \<mapsto> \<lparr>requests = 1, resetTime = now + win\<rparr>)))
   \<and> (store i = Some e \<and> now \<le> resetTime e \<and> requests e \<ge> mx \<longrightarrow>
      checkRateLimit now i mx win store = (False, store))
   \<and> (store i = Some e \<and> now \<le> resetTime e \<and> requests e < mx \<longrightarrow>
      checkRateLimit now i mx win store = (True, store(i \<mapsto> e\<lparr>requests := requests e + 1\<rparr>)))
   \<and> (store i = None \<and> t2 \<le> t1 + 60000 \<and> t3 \<le> t1 + 60000 \<and> t4 \<le> t1 + 60000
        \<and> t5 > t1 + 60000 \<longrightarrow>
      successive_calls i 3 60000 [t1, t2, t3, t4, t5] store = [True, True, True, False, True])"
  using crl_new [of store i now mx win] crl_reset [of store i e now mx win]
    crl_deny [of store i e now mx win] crl_count [of store i e now mx win]
    crl_four_then_fifth [of store i t2 t1 t3 t4 t5]
  by blast

theorem checkRateLimit_fixed_window_witness:
  "successive_calls (js ''x'') 3 60000 [0, 10, 20, 60000, 60001] Map.empty
     = [True, True, True, False, True]
   \<and> checkRateLimit 0 (js ''x'') 3 60000 Map.empty
     = (True, [js ''x'' \<mapsto> \<lparr>requests = 1, resetTime = 60000\<rparr>])
   \<and> checkRateLimit 11 (js ''x'') 3 60000 [js ''x'' \<mapsto> \<lparr>requests = 3, resetTime = 10\<rparr>]
     = (True, [js ''x'' \<mapsto> \<lparr>requests = 1, resetTime = 60011\<rparr>])
   \<and> checkRateLimit 10 (js ''x'') 3 60000 [js ''x'' \<mapsto> \<lparr>requests = 3, resetTime = 10\<rparr>]
     = (False, [js ''x'' \<mapsto> \<lparr>requests = 3, resetTime = 10\<rparr>])
   \<and> checkRateLimit 10 (js ''x'') 3 60000 [js ''x'' \<mapsto> \<lparr>requests = 2, resetTime = 10\<rparr>]
     = (True, [js ''x'' \<mapsto> \<lparr>requests = 3, resetTime = 10\<rparr>])"
proof -
  let ?x = "js ''x''"
  let ?full = "\<lparr>requests = 3, resetTime = 10\<rparr>"
  let ?two = "\<lparr>requests = 2, resetTime = 10\<rparr>"
  note fresh = checkRateLimit_fixed_window [of Map.empty ?x 0 3 60000 ?full 10 0 20 60000 60001]
  note full11 = checkRateLimit_fixed_window [of "[?x \<mapsto> ?full]" ?x 11 3 60000 ?full]
  note full10 = checkRateLimit_fixed_window [of "[?x \<mapsto> ?full]" ?x 10 3 60000 ?full]
  note two10 = checkRateLimit_fixed_window [of "[?x \<mapsto> ?two]" ?x 10 3 60000 ?two]
  have h1: "Map.empty ?x = None \<and> (10::int) \<le> 0 + 60000 \<and> (20::int) \<le> 0 + 60000
             \<and> (60000::int) \<le> 0 + 60000 \<and> (60001::int) > 0 + 60000"
    by simp
  have h2: "[?x \<mapsto> ?full] ?x = Some ?full \<and> 11 > resetTime ?full" by simp
  have h3: "[?x \<mapsto> ?full] ?x = Some ?full \<and> 10 \<le> resetTime ?full \<and> requests ?full \<ge> 3"
    by simp
  have h4: "[?x \<mapsto> ?two] ?x = Some ?two \<and> 10 \<le> resetTime ?two \<and> requests ?two < 3"
    by simp
  have a: "successive_calls ?x 3 60000 [0, 10, 20, 60000, 60001] Map.empty
             = [True, True, True, False, True]"
    using fresh h1 by blast
  have b: "checkRateLimit 0 ?x 3 60000 Map.empty
             = (True, [?x \<mapsto> \<lparr>requests = 1, resetTime = 0 + 60000\<rparr>])"
    using fresh h1 by blast
  have c: "checkRateLimit 11 ?x 3 60000 [?x \<mapsto> ?full]
             = (True, [?x \<mapsto> ?full, ?x \<mapsto> \<lparr>requests = 1, resetTime = 11 + 60000\<rparr>])"
    using full11 h2 by blast
  have d: "checkRateLimit 10 ?x 3 60000 [?x \<mapsto> ?full] = (False, [?x \<mapsto> ?full])"
    using full10 h3 by blast
  have e: "checkRateLimit 10 ?x 3 60000 [?x \<mapsto> ?two]
             = (True, [?x \<mapsto> ?two, ?x \<mapsto> ?two\<lparr>requests := requests ?two + 1\<rparr>])"
    using two10 h4 by blast
  show ?thesis
    unfolding a b c d e by simp
qed

section \<open>Properties of validateRoomId\<close>

lemma trim_Nil: "trim [] = []"
  by (simp add: trim_def)

lemma validateRoomId_string:
  "validateRoomId (JStr s) = Valid () \<longleftrightarrow> trim s \<noteq> [] \<and> length s \<le> 100"
proof (cases "s = []")
  case True
  then show ?thesis by (simp add: validateRoomId_def trim_Nil)
next
  case False
  then show ?thesis by (simp add: validateRoomId_def)
qed

lemma validateRoomId_not_string:
  "\<forall>t. v \<noteq> JStr t \<Longrightarrow> validateRoomId v \<noteq> Valid ()"
  by (cases v) (simp_all add: validateRoomId_def)

text \<open>
  C9, as amended. \<open>validateRoomId\<close> accepts a string exactly when it is not empty after
  trimming and has at most 100 characters; anything that is not a string is rejected. So a
  string of length 0 or 101 is rejected, and a string of length 1 or 100 is accepted unless
  it is white space only.
\<close>

theorem validateRoomId_accepts_iff:
  "(validateRoomId (JStr s) = Valid () \<longleftrightarrow> trim s \<noteq> [] \<and> length s \<le> 100)
   \<and> ((\<forall>t. v \<noteq> JStr t) \<longrightarrow> validateRoomId v \<noteq> Valid ())
   \<and> (length s = 0 \<or> length s = 101 \<longrightarrow> validateRoomId (JStr s) \<noteq> Valid ())
   \<and> ((length s = 1 \<or> length s = 100) \<and> trim s \<noteq> [] \<longrightarrow> validateRoomId (JStr s) = Valid ())"
proof (intro conjI impI)
  show "validateRoomId (JStr s) = Valid () \<longleftrightarrow> trim s \<noteq> [] \<and> length s \<le> 100"
    by (rule validateRoomId_string)
  show "validateRoomId v \<noteq> Valid ()" if "\<forall>t. v \<noteq> JStr t"
    using that by (rule validateRoomId_not_string)
  show "validateRoomId (JStr s) \<noteq> Valid ()" if "length s = 0 \<or> length s = 101"
  proof -
    from that have "trim s = [] \<or> \<not> length s \<le> 100"
    proof
      assume "length s = 0"
      then show ?thesis by (simp add: trim_Nil)
    next
      assume "length s = 101"
      then show ?thesis by linarith
    qed
    then show ?thesis unfolding validateRoomId_string by blast
  qed
  show "validateRoomId (JStr s) = Valid ()"
    if "(length s = 1 \<or> length s = 100) \<and> trim s \<noteq> []"
  proof -
    from that have "length s \<le> 100" by linarith
    with that show ?thesis unfolding validateRoomId_string by blast
  qed
qed

theorem validateRoomId_accepts_iff_witness:
  "validateRoomId (JStr (js ''a'')) = Valid ()
   \<and> validateRoomId (JStr (replicate 100 (of_char CHR ''a''))) = Valid ()
   \<and> validateRoomId (JStr (replicate 101 (of_char CHR ''a''))) \<noteq> Valid ()
   \<and> validateRoomId (JStr []) \<noteq> Valid ()
   \<and> validateRoomId (JNum 7) \<noteq> Valid ()"
proof -
  let ?a = "of_char CHR ''a'' :: jschar"
  have nw: "\<not> isWhiteSpace ?a" by (simp add: isWhiteSpace_def)
  have tr: "trim (replicate (Suc n) ?a) = replicate (Suc n) ?a" for n
  proof -
    have "dropWhile isWhiteSpace (replicate (Suc n) ?a) = replicate (Suc n) ?a"
      using nw by simp
    then show ?thesis unfolding trim_def by (simp only: rev_replicate)
  qed
  have h1: "(length (js ''a'') = 1 \<or> length (js ''a'') = 100) \<and> trim (js ''a'') \<noteq> []"
    using tr [of 0] by (simp add: js_def)
  have "trim (replicate 100 ?a) \<noteq> []"
    using tr [of 99] by simp
  then have h100: "(length (replicate 100 ?a) = 1 \<or> length (replicate 100 ?a) = 100)
      \<and> trim (replicate 100 ?a) \<noteq> []"
    by simp
  have h101: "length (replicate 101 ?a) = 0 \<or> length (replicate 101 ?a) = 101" by simp
  have h0: "length ([] :: jsstring) = 0 \<or> length ([] :: jsstring) = 101" by simp
  have hn: "\<forall>t. JNum 7 \<noteq> JStr t" by simp
  from validateRoomId_accepts_iff [of "js ''a''" "JNum 7"] h1
  have a: "validateRoomId (JStr (js ''a'')) = Valid ()" by blast
  from validateRoomId_accepts_iff [of "replicate 100 ?a" "JNum 7"] h100
  have b: "validateRoomId (JStr (replicate 100 ?a)) = Valid ()" by blast
  from validateRoomId_accepts_iff [of "replicate 101 ?a" "JNum 7"] h101
  have c: "validateRoomId (JStr (replicate 101 ?a)) \<noteq> Valid ()" by blast
  from validateRoomId_accepts_iff [of "[]" "JNum 7"] h0 hn
  have d: "validateRoomId (JStr []) \<noteq> Valid ()" and e: "validateRoomId (JNum 7) \<noteq> Valid ()"
    by blast+
  from a b c d e show ?thesis by blast
qed

text \<open>
  The claim as stated (a string of length 1 is accepted) fails for the one-character string
  made of a space: its length is in \<open>[1,100]\<close> and it is rejected.
\<close>

theorem validateRoomId_blank_counterexample:
  "length (js '' '') = 1
   \<and> validateRoomId (JStr (js '' '')) = Invalid ''roomId cannot be empty''"
  by (simp add: validateRoomId_def trim_def js_def isWhiteSpace_def)

section \<open>Properties of the handlers\<close>

subsection \<open>chat:join\<close>

text \<open>
  C10. A \<open>chat:join\<close> request whose \<open>userId\<close> is absent or falsy (whatever its \<open>roomId\<close>)
  is answered with \<open>chat:error\<close>, message "roomId and userId are required", sent to the
  caller only; the connection joins no room and no \<open>chat:userJoined\<close> is sent.
\<close>

theorem chat_join_requires_userId:
  "\<not> truthy (userId d) \<Longrightarrow>
     chat_join socket (Some d) w
       = w\<lparr>emitted := emitted w @
             [\<lparr>target = ToSocket socket, event = ''chat:error'',
               payload = ErrorMsg ''roomId and userId are required''\<rparr>]\<rparr>
     \<and> joined (chat_join socket (Some d) w) = joined w
     \<and> (\<forall>e. e \<in> set (emitted (chat_join socket (Some d) w)) \<and> event e = ''chat:userJoined''
            \<longrightarrow> e \<in> set (emitted w))"
  by (auto simp: chat_join_def reply_error_def emit_def)

theorem chat_join_requires_userId_witness:
  "emitted (chat_join (js ''A'') (Some ((hello_request [])\<lparr>userId := JUndefined\<rparr>)) sample_world)
     = [\<lparr>target = ToSocket (js ''A''), event = ''chat:error'',
         payload = ErrorMsg ''roomId and userId are required''\<rparr>]
   \<and> joined (chat_join (js ''A'') (Some ((hello_request [])\<lparr>userId := JUndefined\<rparr>)) sample_world)
     = joined sample_world"
proof -
  have h: "\<not> truthy (userId ((hello_request [])\<lparr>userId := JUndefined\<rparr>))" by simp
  have e: "emitted sample_world = []" by (simp add: sample_world_def)
  from chat_join_requires_userId [OF h, of "js ''A''" sample_world] e
  show ?thesis by simp
qed

subsection \<open>chat:send\<close>

lemma sendMessage_blank:
  "trim m = [] \<Longrightarrow>
     sendMessage r u (JStr m) w
       = (Failure (if truthy r \<and> truthy u \<and> m \<noteq> [] then ''Message content cannot be empty''
                   else ''roomId, senderId, and content are required''), w)"
  by (simp add: sendMessage_def)

text \<open>
  C6. A send request whose message is a string that is empty after trimming fails with a
  validation error (\<open>chat:error\<close>) sent to the sender only: that is the only emission, no
  statement reaches the message store, and \<open>ChatService.sendMessage\<close> itself fails on such
  a message without touching the state.
\<close>

theorem chat_send_blank_message:
  "message d = JStr m \<Longrightarrow> trim m = [] \<Longrightarrow>
     chat_send socket (Some d) w
       = w\<lparr>emitted := emitted w @
             [\<lparr>target = ToSocket socket, event = ''chat:error'',
               payload = ErrorMsg
                 (if truthy (roomId d) \<and> truthy (userId d) \<and> m \<noteq> []
                  then ''Message content cannot be empty''
                  else ''roomId, userId, and message are required'')\<rparr>]\<rparr>
     \<and> statements (chat_send socket (Some d) w) = statements w
     \<and> recipients (chat_send socket (Some d) w) (ToSocket socket) = [socket]
     \<and> snd (sendMessage r u (JStr m) w) = w
     \<and> (\<exists>err. fst (sendMessage r u (JStr m) w) = Failure err)"
proof -
  assume m: "message d = JStr m" and t: "trim m = []"
  have 1: "chat_send socket (Some d) w
       = w\<lparr>emitted := emitted w @
             [\<lparr>target = ToSocket socket, event = ''chat:error'',
               payload = ErrorMsg
                 (if truthy (roomId d) \<and> truthy (userId d) \<and> m \<noteq> []
                  then ''Message content cannot be empty''
                  else ''roomId, userId, and message are required'')\<rparr>]\<rparr>"
    using m t by (simp add: chat_send_def sendMessage_blank reply_error_def emit_def)
  have 2: "sendMessage r u (JStr m) w
       = (Failure (if truthy r \<and> truthy u \<and> m \<noteq> [] then ''Message content cannot be empty''
                   else ''roomId, senderId, and content are required''), w)"
    using t by (rule sendMessage_blank)
  show ?thesis unfolding 1 2 by simp
qed

theorem chat_send_blank_message_witness:
  "emitted (chat_send (js ''A'') (Some (hello_request (js ''   ''))) sample_world)
     = [\<lparr>target = ToSocket (js ''A''), event = ''chat:error'',
         payload = ErrorMsg ''Message content cannot be empty''\<rparr>]
   \<and> statements (chat_send (js ''A'') (Some (hello_request (js ''   ''))) sample_world) = []"
proof -
  have m: "message (hello_request (js ''   '')) = JStr (js ''   '')"
    by (simp add: hello_request_def)
  have t: "trim (js ''   '') = []" by (simp add: trim_def js_def isWhiteSpace_def)
  have e: "emitted sample_world = []" "statements sample_world = []"
    by (simp_all add: sample_world_def)
  have f: "truthy (roomId (hello_request (js ''   '')))" "truthy (userId (hello_request (js ''   '')))"
    "js ''   '' \<noteq> []"
    by (simp_all add: hello_request_def js_def)
  from chat_send_blank_message [OF m t, of "js ''A''" sample_world] e f
  show ?thesis by simp
qed

subsection \<open>disconnect\<close>

lemma disconnect_fold:
  "foldl (\<lambda>w' roomId.
            if roomId \<noteq> socket
              then emit (ToRoomExcept roomId socket) ''userDisconnected''
                     (UserDisconnected socket reason) w'
            else w') w rs
   = w\<lparr>emitted := emitted w @
         map (\<lambda>r. \<lparr>target = ToRoomExcept r socket, event = ''userDisconnected'',
                    payload = UserDisconnected socket reason\<rparr>)
           (filter (\<lambda>r. r \<noteq> socket) rs)\<rparr>"
proof (induction rs arbitrary: w)
  case Nil
  show ?case by simp
next
  case (Cons r rs)
  show ?case by (simp add: Cons.IH emit_def)
qed

lemma handleDisconnection_eq:
  "handleDisconnection socket reason w
   = w\<lparr>emitted := emitted w @
         map (\<lambda>r. \<lparr>target = ToRoomExcept r socket, event = ''userDisconnected'',
                    payload = UserDisconnected socket reason\<rparr>)
           (filter (\<lambda>r. r \<noteq> socket) (socket_rooms socket w))\<rparr>"
  unfolding handleDisconnection_def by (rule disconnect_fold)

lemma socket_rooms_leaveAll: "socket_rooms socket (leaveAll socket w) = []"
  by (simp add: socket_rooms_def leaveAll_def)

lemma on_disconnect_eq: "on_disconnect socket reason w = leaveAll socket w"
  by (simp add: on_disconnect_def handleDisconnection_eq socket_rooms_leaveAll)

lemma sample_rooms_A: "socket_rooms (js ''A'') sample_world = [js ''A'', js ''r1'']"
  by (simp add: socket_rooms_def sample_world_def js_def)

lemma sample_members_r1: "members sample_world (js ''r1'') = [js ''A'', js ''B'']"
  by (simp add: members_def sample_world_def js_def)

text \<open>
  C5, where the code departs from the claim. When a connection disconnects, the listener
  runs \<open>handleDisconnection\<close> on a socket that is already out of all its rooms, so the loop
  over \<open>socket.rooms\<close> has no room to visit: the disconnection emits no event at all,
  whatever rooms the connection had joined, and the connection is in no room afterwards.
  With \<open>A\<close> and \<open>B\<close> in room \<open>r1\<close>, the disconnection of \<open>A\<close> leaves \<open>B\<close> alone in \<open>r1\<close> and
  sends \<open>B\<close> nothing, where the claim has \<open>B\<close> receive the notification.
\<close>

theorem disconnect_notifies_nobody:
  "on_disconnect socket reason w = leaveAll socket w
   \<and> emitted (on_disconnect socket reason w) = emitted w
   \<and> socket_rooms socket (on_disconnect socket reason w) = []
   \<and> js ''r1'' \<in> set (socket_rooms (js ''A'') sample_world)
   \<and> js ''B'' \<in> set (members sample_world (js ''r1''))
   \<and> emitted (on_disconnect (js ''A'') (js ''transport close'') sample_world) = []
   \<and> members (on_disconnect (js ''A'') (js ''transport close'') sample_world) (js ''r1'')
       = [js ''B'']"
proof (intro conjI)
  show "on_disconnect socket reason w = leaveAll socket w"
    by (rule on_disconnect_eq)
  show "emitted (on_disconnect socket reason w) = emitted w"
    by (simp add: on_disconnect_eq leaveAll_def)
  show "socket_rooms socket (on_disconnect socket reason w) = []"
    by (simp add: on_disconnect_eq socket_rooms_leaveAll)
  show "js ''r1'' \<in> set (socket_rooms (js ''A'') sample_world)"
    by (simp add: sample_rooms_A)
  show "js ''B'' \<in> set (members sample_world (js ''r1''))"
    by (simp add: sample_members_r1)
  show "emitted (on_disconnect (js ''A'') (js ''transport close'') sample_world) = []"
    by (simp add: on_disconnect_eq leaveAll_def sample_world_def)
  show "members (on_disconnect (js ''A'') (js ''transport close'') sample_world) (js ''r1'')
       = [js ''B'']"
    by (simp add: on_disconnect_eq leaveAll_def members_def sample_world_def js_def)
qed

subsection \<open>What reaches the message store\<close>

lemma pool_query_statements:
  "statements (snd (pool_query q w)) = statements w @ [q]"
  by (simp add: pool_query_def)

lemma saveMessage_statements:
  "statements (snd (saveMessage r u c w)) = statements w @ [Insert r u c]"
  by (simp add: saveMessage_def pool_query_def split: sum.splits pg_answer.splits)

lemma sendMessage_statements:
  "statements (snd (sendMessage r u c w))
     = (case c of
          JStr s \<Rightarrow>
            if truthy r \<and> truthy u \<and> trim s \<noteq> [] \<and> length (trim s) \<le> 1000
              then statements w @ [Insert r u (trim s)]
            else statements w
        | _ \<Rightarrow> statements w)"
proof (cases c)
  case (JStr s)
  have "trim s = []" if "s = []" using that by (simp add: trim_def)
  with JStr show ?thesis
    using saveMessage_statements [of r u "trim s" w]
    by (auto simp: sendMessage_def Let_def split: prod.splits sum.splits)
qed (simp_all add: sendMessage_def)

lemma sendMessage_Success:
  "sendMessage r u c w = (Success m, w') \<Longrightarrow>
     \<exists>s. c = JStr s \<and> statements w' = statements w @ [Insert r u (trim s)]"
proof -
  assume a: "sendMessage r u c w = (Success m, w')"
  then obtain s where c: "c = JStr s"
    by (cases c) (auto simp: sendMessage_def split: if_splits)
  from a c have ok: "truthy r \<and> truthy u \<and> trim s \<noteq> [] \<and> length (trim s) \<le> 1000"
    by (auto simp: sendMessage_def Let_def split: if_splits)
  from a have "statements w' = statements (snd (sendMessage r u c w))" by simp
  with c ok show ?thesis by (simp add: sendMessage_statements)
qed

lemma emit_statements: "statements (emit t e p w) = statements w"
  by (simp add: emit_def)

lemma chat_send_statements:
  "statements (chat_send socket (Some d) w)
     = statements (snd (sendMessage (roomId d) (userId d) (message d) w))"
proof (cases "truthy (roomId d) \<and> truthy (userId d) \<and> truthy (message d)")
  case True
  then show ?thesis
    by (auto simp: chat_send_def reply_error_def emit_statements
        split: prod.splits service_result.splits sum.splits)
next
  case False
  then have "sendMessage (roomId d) (userId d) (message d) w
      = (Failure ''roomId, senderId, and content are required'', w)"
    by (auto simp: sendMessage_def)
  with False show ?thesis
    by (auto simp: chat_send_def reply_error_def emit_statements)
qed

lemma postMessage_statements:
  "statements (snd (postMessage (Some b) w))
     = statements (snd (sendMessage (body_roomId b) (body_senderId b) (body_content b) w))"
  by (auto simp: postMessage_def split: prod.splits service_result.splits)

text \<open>
  C1, as amended. The content persisted for a message that the send operation accepts is
  the trimmed message text, character for character: \<open>ChatService.sendMessage\<close> hands
  \<open>trim\<close> of the content to the INSERT and does not HTML-escape it. It issues that one
  statement exactly when room, sender and content are truthy and the content is a string
  whose trimmed text has between 1 and 1000 characters, and no statement otherwise; the
  \<open>chat:send\<close> handler and the HTTP \<open>postMessage\<close> reach the store only through it.
\<close>

theorem sendMessage_stores_trimmed_content:
  "(sendMessage r u c w = (Success m, w') \<longrightarrow>
      (\<exists>s. c = JStr s \<and> statements w' = statements w @ [Insert r u (trim s)]))
   \<and> statements (snd (sendMessage r u c w))
       = (case c of
            JStr s \<Rightarrow>
              if truthy r \<and> truthy u \<and> trim s \<noteq> [] \<and> length (trim s) \<le> 1000
                then statements w @ [Insert r u (trim s)]
              else statements w
          | _ \<Rightarrow> statements w)
   \<and> statements (chat_send socket (Some d) w)
       = statements (snd (sendMessage (roomId d) (userId d) (message d) w))
   \<and> statements (snd (postMessage (Some b) w))
       = statements (snd (sendMessage (body_roomId b) (body_senderId b) (body_content b) w))"
  using sendMessage_Success [of r u c w m w'] sendMessage_statements [of r u c w]
    chat_send_statements [of socket d w] postMessage_statements [of b w]
  by blast

lemma sample_send:
  "sendMessage (JStr (js ''r1'')) (JStr (js ''alice'')) (JStr (js '' <b> '')) sample_world
     = (Success (Some \<lparr>row_id = 1, room_id = js ''r1'', sender_id = js ''alice'',
                       row_content = js ''<b>'', created_at = 1000\<rparr>),
        sample_world\<lparr>statements :=
          [Insert (JStr (js ''r1'')) (JStr (js ''alice'')) (js ''<b>'')]\<rparr>)"
  by (simp add: sendMessage_def Let_def saveMessage_def pool_query_def sample_world_def trim_def
      isWhiteSpace_def js_def)

theorem sendMessage_stores_trimmed_content_witness:
  "trim (js '' <b> '') = js ''<b>''
   \<and> statements (snd (sendMessage (JStr (js ''r1'')) (JStr (js ''alice'')) (JStr (js '' <b> ''))
                        sample_world))
       = [Insert (JStr (js ''r1'')) (JStr (js ''alice'')) (js ''<b>'')]"
proof -
  have t: "trim (js '' <b> '') = js ''<b>''"
    by (simp add: trim_def js_def isWhiteSpace_def)
  have e: "statements sample_world = []" by (simp add: sample_world_def)
  from sendMessage_stores_trimmed_content
    [of "JStr (js ''r1'')" "JStr (js ''alice'')" "JStr (js '' <b> '')" sample_world
        "Some \<lparr>row_id = 1, room_id = js ''r1'', sender_id = js ''alice'',
               row_content = js ''<b>'', created_at = 1000\<rparr>"
        "sample_world\<lparr>statements :=
          [Insert (JStr (js ''r1'')) (JStr (js ''alice'')) (js ''<b>'')]\<rparr>"]
    sample_send
  have "\<exists>s. JStr (js '' <b> '') = JStr s
          \<and> statements (sample_world\<lparr>statements :=
                [Insert (JStr (js ''r1'')) (JStr (js ''alice'')) (js ''<b>'')]\<rparr>)
              = statements sample_world @ [Insert (JStr (js ''r1'')) (JStr (js ''alice'')) (trim s)]"
    by blast
  with t e sample_send show ?thesis by simp
qed

text \<open>
  The claim as stated fails: the message \<open><b>\<close> is accepted on both paths and stored as
  it is, with its \<open><\<close>, while its sanitized form would be \<open>&lt;b&gt;\<close>.
\<close>

theorem send_stores_raw_html_counterexample:
  "statements (chat_send (js ''A'') (Some (hello_request (js ''<b>''))) sample_world)
     = [Insert (JStr (js ''r1'')) (JStr (js ''alice'')) (js ''<b>'')]
   \<and> statements (snd (postMessage
        (Some \<lparr>body_roomId = JStr (js ''r1''), body_senderId = JStr (js ''alice''),
                body_content = JStr (js ''<b>'')\<rparr>) sample_world))
     = [Insert (JStr (js ''r1'')) (JStr (js ''alice'')) (js ''<b>'')]
   \<and> map event (emitted (chat_send (js ''A'') (Some (hello_request (js ''<b>''))) sample_world))
     = [''chat:receive'']
   \<and> of_char CHR ''<'' \<in> set (js ''<b>'')
   \<and> sanitizeHtml (JStr (js ''<b>'')) = JStr (js ''&lt;b&gt;'')"
  by (simp add: chat_send_def postMessage_def hello_request_def sendMessage_def Let_def saveMessage_def
      pool_query_def sample_world_def trim_def isWhiteSpace_def emit_def reply_error_def
      sanitizeHtml_def replace_chain_def js_def)

subsection \<open>The rate limiter and chat:send\<close>













subsection \<open>chat:getHistory\<close>

lemma validate_limit_range:
  "validate_limit l = Inr (Valid a) \<Longrightarrow> 1 \<le> a \<and> a \<le> 100"
  by (auto simp: validate_limit_def split: if_splits sum.splits option.splits)

lemma validate_offset_range:
  "validate_offset k = Inr (Valid b) \<Longrightarrow> 0 \<le> b"
  by (auto simp: validate_offset_def split: if_splits sum.splits option.splits)

lemma validatePagination_range:
  "validatePagination l k = Inr (Valid (a, b)) \<Longrightarrow> 1 \<le> a \<and> a \<le> 100 \<and> 0 \<le> b"
  using validate_limit_range [of l a] validate_offset_range [of k b]
  by (auto simp: validatePagination_def split: sum.splits validation.splits)

lemma validatePagination_defaults:
  "validatePagination JUndefined JUndefined = Inr (Valid (50, 0))"
  by (simp add: validatePagination_def validate_limit_def validate_offset_def)

lemma chat_getHistory_no_room:
  "\<not> truthy (roomId d) \<Longrightarrow>
     chat_getHistory socket (Some d) w
       = w\<lparr>emitted := emitted w @
             [\<lparr>target = ToSocket socket, event = ''chat:error'',
               payload = ErrorMsg ''roomId is required''\<rparr>]\<rparr>"
  by (simp add: chat_getHistory_def Let_def reply_error_def emit_def)

lemma dflt_idem: "dflt (dflt v d) d = dflt v d"
  by (simp add: dflt_def)

lemma chat_getHistory_room:
  "truthy (roomId d) \<Longrightarrow>
     chat_getHistory socket (Some d) w
       = w\<lparr>statements := statements w @
               [Select (roomId d) (dflt (limit d) (JNum 50)) (dflt (offset d) (JNum 0))],
            emitted := emitted w @
               [case pg w (Select (roomId d) (dflt (limit d) (JNum 50)) (dflt (offset d) (JNum 0))) of
                  Rows rs \<Rightarrow>
                    \<lparr>target = ToSocket socket, event = ''chat:history'',
                     payload = History rs (length rs) (roomId d) (dflt (limit d) (JNum 50))
                                 (dflt (offset d) (JNum 0))\<rparr>
                | Rejected \<Rightarrow>
                    \<lparr>target = ToSocket socket, event = ''chat:error'',
                     payload = ErrorMsg ''Failed to retrieve chat history''\<rparr>]\<rparr>"
  by (simp add: chat_getHistory_def Let_def getChatHistory_def getMessagesByRoom_def dflt_idem
      pool_query_def reply_error_def emit_def split: pg_answer.splits)

text \<open>
  C4, as amended. For a \<open>chat:getHistory\<close> request with a room id, an absent limit
  defaults to 50 and an absent offset to 0, and the handler hands limit and offset to the
  store's SELECT as they are, without calling \<open>validatePagination\<close>: the caller gets
  \<open>chat:history\<close> with the rows when the store answers and \<open>chat:error\<close> when the store
  rejects the query. Without a room id the caller gets \<open>chat:error\<close> and the store is not
  reached. \<open>validatePagination\<close> on its own gives 50 and 0 for absent arguments and accepts
  only a limit in \<open>[1,100]\<close> and an offset of at least 0.
\<close>

theorem chat_getHistory_passes_paging:
  "(truthy (roomId d) \<longrightarrow>
      chat_getHistory socket (Some d) w
        = w\<lparr>statements := statements w @
                [Select (roomId d) (dflt (limit d) (JNum 50)) (dflt (offset d) (JNum 0))],
             emitted := emitted w @
                [case pg w (Select (roomId d) (dflt (limit d) (JNum 50))
                              (dflt (offset d) (JNum 0))) of
                   Rows rs \<Rightarrow>
                     \<lparr>target = ToSocket socket, event = ''chat:history'',
                      payload = History rs (length rs) (roomId d) (dflt (limit d) (JNum 50))
                                  (dflt (offset d) (JNum 0))\<rparr>
                 | Rejected \<Rightarrow>
                     \<lparr>target = ToSocket socket, event = ''chat:error'',
                      payload = ErrorMsg ''Failed to retrieve chat history''\<rparr>]\<rparr>)
   \<and> (\<not> truthy (roomId d) \<longrightarrow>
      chat_getHistory socket (Some d) w
        = w\<lparr>emitted := emitted w @
              [\<lparr>target = ToSocket socket, event = ''chat:error'',
                payload = ErrorMsg ''roomId is required''\<rparr>]\<rparr>)
   \<and> dflt JUndefined (JNum 50) = JNum 50 \<and> dflt JUndefined (JNum 0) = JNum 0
   \<and> (v \<noteq> JUndefined \<longrightarrow> dflt v x = v)
   \<and> validatePagination JUndefined JUndefined = Inr (Valid (50, 0))
   \<and> (validatePagination l k = Inr (Valid (a, b)) \<longrightarrow> 1 \<le> a \<and> a \<le> 100 \<and> 0 \<le> b)"
proof -
  have "dflt JUndefined (JNum 50) = JNum 50" "dflt JUndefined (JNum 0) = JNum 0"
    "v \<noteq> JUndefined \<longrightarrow> dflt v x = v"
    by (simp_all add: dflt_def)
  with chat_getHistory_room [of d socket w] chat_getHistory_no_room [of d socket w]
    validatePagination_defaults validatePagination_range [of l k a b]
  show ?thesis by blast
qed

theorem chat_getHistory_passes_paging_witness:
  "statements (chat_getHistory (js ''A'') (Some ((hello_request [])\<lparr>limit := JNum 2\<rparr>)) sample_world)
     = [Select (JStr (js ''r1'')) (JNum 2) (JNum 0)]
   \<and> emitted (chat_getHistory (js ''A'') (Some ((hello_request [])\<lparr>limit := JNum 2\<rparr>)) sample_world)
     = [\<lparr>target = ToSocket (js ''A''), event = ''chat:history'',
         payload = History [] 0 (JStr (js ''r1'')) (JNum 2) (JNum 0)\<rparr>]
   \<and> emitted (chat_getHistory (js ''A'') (Some ((hello_request [])\<lparr>roomId := JUndefined\<rparr>))
        sample_world)
     = [\<lparr>target = ToSocket (js ''A''), event = ''chat:error'',
         payload = ErrorMsg ''roomId is required''\<rparr>]
   \<and> dflt (JNum 2) (JNum 50) = JNum 2
   \<and> validatePagination (JNum 2) JUndefined = Inr (Valid (2, 0))"
proof -
  let ?d = "(hello_request [])\<lparr>limit := JNum 2\<rparr>"
  let ?n = "(hello_request [])\<lparr>roomId := JUndefined\<rparr>"
  have h: "truthy (roomId ?d)" "\<not> truthy (roomId ?n)" "JNum 2 \<noteq> JUndefined"
    by (simp_all add: hello_request_def js_def)
  have v: "validatePagination (JNum 2) JUndefined = Inr (Valid (2, 0))"
    by (simp add: validatePagination_def validate_limit_def validate_offset_def parseInt_def
        parseInt_string_def number_toString_def digit_value_def js_def isWhiteSpace_def)
  from chat_getHistory_passes_paging [of ?d "js ''A''" sample_world "JNum 2" "JNum 50"] h
  have 1: "chat_getHistory (js ''A'') (Some ?d) sample_world
        = sample_world\<lparr>statements := statements sample_world @
                [Select (roomId ?d) (dflt (limit ?d) (JNum 50)) (dflt (offset ?d) (JNum 0))],
             emitted := emitted sample_world @
                [case pg sample_world (Select (roomId ?d) (dflt (limit ?d) (JNum 50))
                              (dflt (offset ?d) (JNum 0))) of
                   Rows rs \<Rightarrow>
                     \<lparr>target = ToSocket (js ''A''), event = ''chat:history'',
                      payload = History rs (length rs) (roomId ?d) (dflt (limit ?d) (JNum 50))
                                  (dflt (offset ?d) (JNum 0))\<rparr>
                 | Rejected \<Rightarrow>
                     \<lparr>target = ToSocket (js ''A''), event = ''chat:error'',
                      payload = ErrorMsg ''Failed to retrieve chat history''\<rparr>]\<rparr>"
    and 2: "dflt (JNum 2) (JNum 50) = JNum 2"
    by blast+
  from chat_getHistory_passes_paging [of ?n "js ''A''" sample_world "JNum 2" "JNum 50"] h
  have 3: "chat_getHistory (js ''A'') (Some ?n) sample_world
        = sample_world\<lparr>emitted := emitted sample_world @
              [\<lparr>target = ToSocket (js ''A''), event = ''chat:error'',
                payload = ErrorMsg ''roomId is required''\<rparr>]\<rparr>"
    by blast
  have a: "statements (chat_getHistory (js ''A'') (Some ?d) sample_world)
     = [Select (JStr (js ''r1'')) (JNum 2) (JNum 0)]"
    unfolding 1 by (simp add: hello_request_def sample_world_def dflt_def)
  have b: "emitted (chat_getHistory (js ''A'') (Some ?d) sample_world)
     = [\<lparr>target = ToSocket (js ''A''), event = ''chat:history'',
         payload = History [] 0 (JStr (js ''r1'')) (JNum 2) (JNum 0)\<rparr>]"
    unfolding 1 by (simp add: hello_request_def sample_world_def dflt_def)
  have c: "emitted (chat_getHistory (js ''A'') (Some ?n) sample_world)
     = [\<lparr>target = ToSocket (js ''A''), event = ''chat:error'',
         payload = ErrorMsg ''roomId is required''\<rparr>]"
    unfolding 3 by (simp add: sample_world_def)
  from a b c 2 v show ?thesis by blast
qed

text \<open>
  The claim as stated fails: a limit of 101, which \<open>validatePagination\<close> rejects, reaches
  the store and the caller gets \<open>chat:history\<close>, not an error; limit 0 and offset -1 reach
  the store as well.
\<close>

theorem chat_getHistory_limit_101_counterexample:
  "validatePagination (JNum 101) (JNum 0) = Inr (Invalid ''limit cannot exceed 100'')
   \<and> statements (chat_getHistory (js ''A'') (Some ((hello_request [])\<lparr>limit := JNum 101\<rparr>))
        sample_world)
     = [Select (JStr (js ''r1'')) (JNum 101) (JNum 0)]
   \<and> emitted (chat_getHistory (js ''A'') (Some ((hello_request [])\<lparr>limit := JNum 101\<rparr>))
        sample_world)
     = [\<lparr>target = ToSocket (js ''A''), event = ''chat:history'',
         payload = History [] 0 (JStr (js ''r1'')) (JNum 101) (JNum 0)\<rparr>]
   \<and> validatePagination (JNum 0) (JNum 0) = Inr (Invalid ''limit must be a positive integer'')
   \<and> statements (chat_getHistory (js ''A'') (Some ((hello_request [])\<lparr>limit := JNum 0\<rparr>))
        sample_world)
     = [Select (JStr (js ''r1'')) (JNum 0) (JNum 0)]
   \<and> validatePagination (JNum 5) (JNum (- 1))
     = Inr (Invalid ''offset must be a non-negative integer'')
   \<and> statements (chat_getHistory (js ''A'')
        (Some ((hello_request [])\<lparr>limit := JNum 5, offset := JNum (- 1)\<rparr>)) sample_world)
     = [Select (JStr (js ''r1'')) (JNum 5) (JNum (- 1))]"
proof -
  have v: "validatePagination (JNum 101) (JNum 0) = Inr (Invalid ''limit cannot exceed 100'')"
    "validatePagination (JNum 0) (JNum 0) = Inr (Invalid ''limit must be a positive integer'')"
    "validatePagination (JNum 5) (JNum (- 1))
       = Inr (Invalid ''offset must be a non-negative integer'')"
    by (simp_all add: validatePagination_def validate_limit_def validate_offset_def parseInt_def
        parseInt_string_def number_toString_def digit_value_def js_def isWhiteSpace_def)
  have r: "truthy (roomId ((hello_request [])\<lparr>limit := x, offset := y\<rparr>))" for x y
    by (simp add: hello_request_def js_def)
  have r': "truthy (roomId ((hello_request [])\<lparr>limit := x\<rparr>))" for x
    by (simp add: hello_request_def js_def)
  show ?thesis
    by (simp add: v chat_getHistory_room [OF r] chat_getHistory_room [OF r'])
       (simp add: hello_request_def sample_world_def dflt_def)
qed

end
